theory Spec2Isabelle
  imports Main
begin

section \<open>Python values, exceptions and dictionaries\<close>

text \<open>
  The services of \<^verbatim>\<open>fastapi/app/services\<close> are embedded as functions that return
  \<open>py_exception + 'a\<close>: \<open>Inl e\<close> is the exception \<open>e\<close> propagating out of the call,
  \<open>Inr v\<close> is the returned value. An exception carries the text that \<^verbatim>\<open>str(exc)\<close>
  (and so an f-string) gives for it; a constructor stands for its class and the
  subclasses of that class, because an \<^verbatim>\<open>except\<close> clause catches both.
  \<open>Other_exception cls msg\<close> is an exception of any class outside these hierarchies
  (its class name is kept). All of them are subclasses of \<^verbatim>\<open>Exception\<close>.
  \<open>InvalidArgument\<close> is the specification's name for what the validator of
  \<^verbatim>\<open>max_tokens\<close> fails with.
\<close>

datatype py_exception =
    LLMException string
  | OpenAIException string
  | AnthropicException string
  | OpenAIError string
  | ValueError string
  | KeyError string
  | InvalidArgument string
  | MermaidCliError string
  | MermaidUnexpectedError string
  | Other_exception string string

text \<open>A \<^verbatim>\<open>dict[str, str]\<close>; \<^verbatim>\<open>d[k]\<close> raises \<^verbatim>\<open>KeyError(k)\<close> on a missing key.\<close>

type_synonym py_dict = "string \<rightharpoonup> string"

definition getitem :: "py_dict \<Rightarrow> string \<Rightarrow> py_exception + string" where
  "getitem d k = (case d k of None \<Rightarrow> Inl (KeyError k) | Some v \<Rightarrow> Inr v)"

section \<open>\<^verbatim>\<open>llm_service.py\<close>: the pure functions\<close>

subsection \<open>\<^verbatim>\<open>get_llm_by_id\<close>\<close>

text \<open>
  Modelled from the spec: \<^verbatim>\<open>LLMDefinition\<close> and \<^verbatim>\<open>LLMConfig\<close> are declared in \<^verbatim>\<open>..models\<close>,
  which is not among the sources. The specification gives a definition an identifier, a
  display name, a vendor and a token limit, and a config a mapping from vendor name to an
  ordered list of definitions and an ordered list of vendor display names. The function
  reads the field \<^verbatim>\<open>id\<close> of a definition and the field \<^verbatim>\<open>llm_vendors\<close> of a config only.
  \<^verbatim>\<open>llm_vendors\<close> is a Python dict, iterated by \<^verbatim>\<open>.items()\<close> in insertion order: an
  association list.
\<close>

record LLMDefinition =
  id_llm :: string
  name_llm :: string
  vendor_llm :: string
  max_tokens_llm :: int

record LLMConfig =
  llm_vendors :: "(string \<times> LLMDefinition list) list"
  llm_vendor_names :: "string list"

text \<open>The inner loop \<^verbatim>\<open>for llm in llms\<close>: \<open>Some llm\<close> is the \<^verbatim>\<open>return llm\<close>.\<close>

fun get_llm_by_id_inner :: "LLMDefinition list \<Rightarrow> string \<Rightarrow> LLMDefinition option" where
  "get_llm_by_id_inner [] llm_id = None"
| "get_llm_by_id_inner (llm # llms) llm_id =
     (if id_llm llm = llm_id then Some llm else get_llm_by_id_inner llms llm_id)"

text \<open>The outer loop \<^verbatim>\<open>for _, llms in llm_config.llm_vendors.items()\<close>.\<close>

fun get_llm_by_id_outer ::
  "(string \<times> LLMDefinition list) list \<Rightarrow> string \<Rightarrow> LLMDefinition option" where
  "get_llm_by_id_outer [] llm_id = None"
| "get_llm_by_id_outer ((_, llms) # vendors) llm_id =
     (case get_llm_by_id_inner llms llm_id of
        Some llm \<Rightarrow> Some llm
      | None \<Rightarrow> get_llm_by_id_outer vendors llm_id)"

definition get_llm_by_id :: "LLMConfig \<Rightarrow> string \<Rightarrow> LLMDefinition option" where
  "get_llm_by_id llm_config llm_id = get_llm_by_id_outer (llm_vendors llm_config) llm_id"

text \<open>Every definition of the config, vendors in the mapping's order, each list in order.\<close>

definition all_llms :: "LLMConfig \<Rightarrow> LLMDefinition list" where
  "all_llms llm_config = concat (map snd (llm_vendors llm_config))"

subsection \<open>\<^verbatim>\<open>format_anthropic_prompt\<close>\<close>

text \<open>
  \<^verbatim>\<open>HUMAN_PROMPT\<close> and \<^verbatim>\<open>AI_PROMPT\<close> are constants of the \<^verbatim>\<open>anthropic\<close> package, so the
  function takes them as parameters. The loop carries \<^verbatim>\<open>prompt\<close>.
\<close>

fun format_anthropic_prompt_loop ::
  "string \<Rightarrow> string \<Rightarrow> string \<Rightarrow> py_dict list \<Rightarrow> py_exception + string" where
  "format_anthropic_prompt_loop HUMAN_PROMPT AI_PROMPT prompt [] = Inr prompt"
| "format_anthropic_prompt_loop HUMAN_PROMPT AI_PROMPT prompt (message # messages) =
     (case getitem message ''role'' of
        Inl e \<Rightarrow> Inl e
      | Inr role \<Rightarrow>
          if role = ''user'' then
            (case getitem message ''content'' of
               Inl e \<Rightarrow> Inl e
             | Inr content \<Rightarrow>
                 format_anthropic_prompt_loop HUMAN_PROMPT AI_PROMPT
                   (prompt @ HUMAN_PROMPT @ '' '' @ content) messages)
          else if role = ''assistant'' then
            (case getitem message ''content'' of
               Inl e \<Rightarrow> Inl e
             | Inr content \<Rightarrow>
                 format_anthropic_prompt_loop HUMAN_PROMPT AI_PROMPT
                   (prompt @ AI_PROMPT @ '' '' @ content) messages)
          else format_anthropic_prompt_loop HUMAN_PROMPT AI_PROMPT prompt messages)"

definition format_anthropic_prompt ::
  "string \<Rightarrow> string \<Rightarrow> py_dict list \<Rightarrow> py_exception + string" where
  "format_anthropic_prompt HUMAN_PROMPT AI_PROMPT messages =
     format_anthropic_prompt_loop HUMAN_PROMPT AI_PROMPT [] messages"

text \<open>
  What one message contributes according to the specification: the marker, one space
  and the content for the roles \<^verbatim>\<open>user\<close> and \<^verbatim>\<open>assistant\<close>, nothing for any other role.
\<close>

definition contribution :: "string \<Rightarrow> string \<Rightarrow> string \<Rightarrow> string \<Rightarrow> string" where
  "contribution HUMAN_PROMPT AI_PROMPT role content =
     (if role = ''user'' then HUMAN_PROMPT @ '' '' @ content
      else if role = ''assistant'' then AI_PROMPT @ '' '' @ content
      else [])"

text \<open>The dictionary \<^verbatim>\<open>{"role": r, "content": c}\<close> of a role/content pair.\<close>

definition message_of :: "string \<times> string \<Rightarrow> py_dict" where
  "message_of rc = [''role'' \<mapsto> fst rc, ''content'' \<mapsto> snd rc]"

text \<open>
  The precondition of the loop body on one message: the key \<^verbatim>\<open>role\<close> is present, and
  the key \<^verbatim>\<open>content\<close> is present when the role is \<^verbatim>\<open>user\<close> or \<^verbatim>\<open>assistant\<close>.
\<close>

definition well_keyed :: "py_dict \<Rightarrow> bool" where
  "well_keyed message =
     (case message ''role'' of
        None \<Rightarrow> False
      | Some role \<Rightarrow>
          if role = ''user'' \<or> role = ''assistant'' then message ''content'' \<noteq> None
          else True)"

section \<open>\<^verbatim>\<open>llm_service.py\<close>: the completion dispatcher\<close>

subsection \<open>The collaborators\<close>

text \<open>
  What \<^verbatim>\<open>openai.ChatCompletion.create\<close> returns: an \<^verbatim>\<open>OpenAIObject\<close> or an object of
  another class (the payload is kept as text); \<^verbatim>\<open>isinstance(response, OpenAIObject)\<close>
  tells them apart.
\<close>

datatype py_object = OpenAIObject string | Other_object string

fun isinstance_OpenAIObject :: "py_object \<Rightarrow> bool" where
  "isinstance_OpenAIObject (OpenAIObject _) = True"
| "isinstance_OpenAIObject (Other_object _) = False"

text \<open>
  The calls a completion makes, in the order they happen. The record of a call holds its
  arguments. \<open>Call_complete_anthropic_text\<close> and \<open>Call_complete_openai_text\<close> mark
  the entry into the two vendor paths.
\<close>

datatype event =
    Ratelimit string
  | Call_complete_anthropic_text
  | Call_complete_openai_text
  | ChatCompletion_create string int "py_dict list" "string list option" string
  | Callback py_object
  | Completions_create string string "string list" string int

text \<open>
  The process-wide state: the state of the shared \<^verbatim>\<open>limiter\<close> (of a type \<open>'l\<close> that the
  \<^verbatim>\<open>pyrate_limiter\<close> package owns) and the calls made so far.
\<close>

record 'l world =
  limiter :: 'l
  calls :: "event list"

definition emit :: "event \<Rightarrow> 'l world \<Rightarrow> 'l world" where
  "emit ev w = w\<lparr>calls := calls w @ [ev]\<rparr>"

text \<open>
  What the module imports and calls but does not define:
  \<^item> the constants \<^verbatim>\<open>ANTHROPIC_AI_VENDOR\<close> (of \<^verbatim>\<open>..config\<close>), \<^verbatim>\<open>HUMAN_PROMPT\<close> and
    \<^verbatim>\<open>AI_PROMPT\<close> (of \<^verbatim>\<open>anthropic\<close>);
  \<^item> \<^verbatim>\<open>validate_max_tokens\<close> (of \<^verbatim>\<open>..utils.llm_utils\<close>): \<open>Some e\<close> when it raises \<open>e\<close>,
    \<open>None\<close> when it returns;
  \<^item> \<^verbatim>\<open>os.environ\<close>;
  \<^item> \<^verbatim>\<open>openai.ChatCompletion.create\<close> with the arguments \<^verbatim>\<open>model\<close>, \<^verbatim>\<open>max_tokens\<close>,
    \<^verbatim>\<open>messages\<close>, \<^verbatim>\<open>functions\<close>, \<^verbatim>\<open>function_call\<close>;
  \<^item> the constructor \<^verbatim>\<open>Anthropic(api_key=...)\<close>: the exception it raises, if any;
  \<^item> \<^verbatim>\<open>Anthropic(api_key).completions.create\<close> with the arguments \<^verbatim>\<open>api_key\<close>,
    \<^verbatim>\<open>prompt\<close>, \<^verbatim>\<open>stop_sequences\<close>, \<^verbatim>\<open>model\<close>, \<^verbatim>\<open>max_tokens_to_sample\<close>; \<open>Inr c\<close> is a
    response whose \<^verbatim>\<open>completion\<close> is \<open>c\<close>.
\<close>

record env =
  ANTHROPIC_AI_VENDOR :: string
  HUMAN_PROMPT :: string
  AI_PROMPT :: string
  validate_max_tokens :: "int \<Rightarrow> py_exception option"
  environ :: py_dict
  openai_create ::
    "string \<Rightarrow> int \<Rightarrow> py_dict list \<Rightarrow> string list option \<Rightarrow> string \<Rightarrow> py_exception + py_object"
  anthropic_client :: "string \<Rightarrow> py_exception option"
  anthropic_create ::
    "string \<Rightarrow> string \<Rightarrow> string list \<Rightarrow> string \<Rightarrow> int \<Rightarrow> py_exception + string"

text \<open>
  \<^verbatim>\<open>limiter.ratelimit(*identities)\<close> of \<^verbatim>\<open>pyrate_limiter\<close> 2.x, the line of the package that
  exports the \<^verbatim>\<open>RequestRate\<close> of line 9: it builds a context decorator for the limiter and
  the identities. It acquires nothing and raises nothing: the limiter is consulted when
  that object is entered or applied to a function, and line 72 drops it.
\<close>

datatype 'l LimitContextDecorator = LimitContextDecorator 'l "string list"

definition ratelimit :: "'l \<Rightarrow> string list \<Rightarrow> 'l LimitContextDecorator" where
  "ratelimit l identities = LimitContextDecorator l identities"

text \<open>
  A callable passed as \<^verbatim>\<open>callback\<close>: its truth value, which \<^verbatim>\<open>if callback:\<close> tests (a
  function is true; an object with \<^verbatim>\<open>__bool__\<close> or \<^verbatim>\<open>__len__\<close> decides for itself, and may
  raise), and what calling it on a response gives.
\<close>

record py_callable =
  truth :: "py_exception + bool"
  call :: "py_object \<Rightarrow> py_exception + string"

text \<open>
  \<^verbatim>\<open>str.strip()\<close> removes the white space at both ends. A \<open>char\<close> is a code point
  below 256; these are the ones for which \<^verbatim>\<open>str.isspace\<close> holds.
\<close>

definition py_isspace :: "char \<Rightarrow> bool" where
  "py_isspace c =
     (let n = (of_char c :: nat)
      in (9 \<le> n \<and> n \<le> 13) \<or> (28 \<le> n \<and> n \<le> 32) \<or> n = 133 \<or> n = 160)"

definition strip :: "string \<Rightarrow> string" where
  "strip s = rev (dropWhile py_isspace (rev (dropWhile py_isspace s)))"

subsection \<open>\<^verbatim>\<open>complete_anthropic_text\<close>\<close>

text \<open>The body of the \<^verbatim>\<open>try\<close>.\<close>

definition complete_anthropic_text_try ::
  "env \<Rightarrow> 'l world \<Rightarrow> int \<Rightarrow> string \<Rightarrow> py_dict list \<Rightarrow> (py_exception + string) \<times> 'l world" where
  "complete_anthropic_text_try env w max_tokens model messages =
     (case getitem (environ env) ''ANTHROPIC_API_KEY'' of
        Inl e \<Rightarrow> (Inl e, w)
      | Inr api_key \<Rightarrow>
          (case anthropic_client env api_key of
             Some e \<Rightarrow> (Inl e, w)
           | None \<Rightarrow>
               (case format_anthropic_prompt (HUMAN_PROMPT env) (AI_PROMPT env) messages of
                  Inl e \<Rightarrow> (Inl e, w)
                | Inr prompt \<Rightarrow>
                    (let w1 = emit (Completions_create api_key prompt [HUMAN_PROMPT env]
                                      model max_tokens) w
                     in case anthropic_create env api_key prompt [HUMAN_PROMPT env]
                               model max_tokens of
                          Inl e \<Rightarrow> (Inl e, w1)
                        | Inr completion \<Rightarrow> (Inr (strip completion), w1)))))"

text \<open>The one handler: \<^verbatim>\<open>except AnthropicException\<close>, the class of this module.\<close>

definition complete_anthropic_text ::
  "env \<Rightarrow> 'l world \<Rightarrow> int \<Rightarrow> string \<Rightarrow> py_dict list \<Rightarrow> (py_exception + string) \<times> 'l world" where
  "complete_anthropic_text env w max_tokens model messages =
     (case complete_anthropic_text_try env (emit Call_complete_anthropic_text w)
             max_tokens model messages of
        (Inl (AnthropicException err), w') \<Rightarrow> (Inr (''Anthropic Client Error: '' @ err), w')
      | r \<Rightarrow> r)"

subsection \<open>\<^verbatim>\<open>complete_openai_text\<close>\<close>

definition no_choices :: string where
  "no_choices = ''Response doesn't have choices or choices have no text.''"

definition complete_openai_text_try ::
  "env \<Rightarrow> 'l world \<Rightarrow> int \<Rightarrow> string \<Rightarrow> py_dict list \<Rightarrow> string list option \<Rightarrow>
   py_callable option \<Rightarrow> (py_exception + string) \<times> 'l world" where
  "complete_openai_text_try env w max_tokens model messages functions callback =
     (let w1 = emit (ChatCompletion_create model max_tokens messages functions ''auto'') w
      in case openai_create env model max_tokens messages functions ''auto'' of
           Inl e \<Rightarrow> (Inl e, w1)
         | Inr response \<Rightarrow>
             if \<not> isinstance_OpenAIObject response
             then (Inl (ValueError ''Invalid Response''), w1)
             else (case callback of
                     None \<Rightarrow> (Inr no_choices, w1)
                   | Some cb \<Rightarrow>
                       (case truth cb of
                          Inl e \<Rightarrow> (Inl e, w1)
                        | Inr is_true \<Rightarrow>
                            if is_true
                            then (call cb response, emit (Callback response) w1)
                            else (Inr no_choices, w1))))"

text \<open>
  The handlers, in the order of the source: \<^verbatim>\<open>openai.OpenAIError\<close>, \<^verbatim>\<open>ValueError\<close>,
  \<^verbatim>\<open>OpenAIException\<close>. Any other exception propagates.
\<close>

definition complete_openai_text ::
  "env \<Rightarrow> 'l world \<Rightarrow> int \<Rightarrow> string \<Rightarrow> py_dict list \<Rightarrow> string list option \<Rightarrow>
   py_callable option \<Rightarrow> (py_exception + string) \<times> 'l world" where
  "complete_openai_text env w max_tokens model messages functions callback =
     (case complete_openai_text_try env (emit Call_complete_openai_text w)
             max_tokens model messages functions callback of
        (Inl (OpenAIError err), w') \<Rightarrow> (Inr (''OpenAI Client Error: '' @ err), w')
      | (Inl (ValueError err), w') \<Rightarrow> (Inr (''OpenAI Client Value error: '' @ err), w')
      | (Inl (OpenAIException err), w') \<Rightarrow>
          (Inr (''complete_openai_text Exception: '' @ err), w')
      | r \<Rightarrow> r)"

subsection \<open>\<^verbatim>\<open>complete_text\<close>\<close>

text \<open>
  The body of the \<^verbatim>\<open>try\<close>: the call of \<^verbatim>\<open>limiter.ratelimit\<close>, whose result is dropped, then
  the dispatch on \<^verbatim>\<open>is_anthropic\<close>.
\<close>

definition complete_text_try ::
  "env \<Rightarrow> 'l world \<Rightarrow> bool \<Rightarrow> int \<Rightarrow> string \<Rightarrow> py_dict list \<Rightarrow> string list option \<Rightarrow>
   py_callable option \<Rightarrow> (py_exception + string) \<times> 'l world" where
  "complete_text_try env w is_anthropic max_tokens model messages functions callback =
     (let w1 = emit (Ratelimit ''complete_text'') w;
          dropped = ratelimit (limiter w1) [''complete_text'']
      in if is_anthropic
         then complete_anthropic_text env w1 max_tokens model messages
         else complete_openai_text env w1 max_tokens model messages functions callback)"

text \<open>
  \<^verbatim>\<open>validate_max_tokens(max_tokens)\<close> stands before the \<^verbatim>\<open>try\<close>: what it raises leaves the
  function. The one handler of the \<^verbatim>\<open>try\<close> is \<^verbatim>\<open>except LLMException\<close>.
\<close>

definition complete_text ::
  "env \<Rightarrow> 'l world \<Rightarrow> int \<Rightarrow> string \<Rightarrow> string \<Rightarrow> py_dict list \<Rightarrow> string list option \<Rightarrow>
   py_callable option \<Rightarrow> (py_exception + string) \<times> 'l world" where
  "complete_text env w max_tokens model vendor messages functions callback =
     (case validate_max_tokens env max_tokens of
        Some e \<Rightarrow> (Inl e, w)
      | None \<Rightarrow>
          (let is_anthropic = (vendor = ANTHROPIC_AI_VENDOR env)
           in case complete_text_try env w is_anthropic max_tokens model messages
                     functions callback of
                (Inl (LLMException exc), w') \<Rightarrow> (Inr (''Error completing text: '' @ exc), w')
              | r \<Rightarrow> r))"

section \<open>\<^verbatim>\<open>mermaid_service.py\<close>\<close>

subsection \<open>Bytes, files and the child process\<close>

text \<open>
  A \<^verbatim>\<open>bytes\<close> object is modelled by what \<^verbatim>\<open>.decode()\<close> makes of it: \<open>Encoded s\<close> are the
  UTF-8 bytes of the text \<open>s\<close>, which \<^verbatim>\<open>s.encode()\<close> gives and which decode to \<open>s\<close>;
  \<open>Undecodable m\<close> is a byte string that is not valid UTF-8, whose decoding raises a
  \<^verbatim>\<open>UnicodeDecodeError\<close> (a \<^verbatim>\<open>ValueError\<close>) of text \<open>m\<close>.
\<close>

datatype bytes = Encoded string | Undecodable string

definition encode :: "string \<Rightarrow> bytes" where
  "encode s = Encoded s"

fun decode :: "bytes \<Rightarrow> py_exception + string" where
  "decode (Encoded s) = Inr s"
| "decode (Undecodable m) = Inl (ValueError m)"

text \<open>\<^verbatim>\<open>str(err)\<close>; for a \<^verbatim>\<open>KeyError\<close> it is the key in quotes.\<close>

fun exc_str :: "py_exception \<Rightarrow> string" where
  "exc_str (LLMException m) = m"
| "exc_str (OpenAIException m) = m"
| "exc_str (AnthropicException m) = m"
| "exc_str (OpenAIError m) = m"
| "exc_str (ValueError m) = m"
| "exc_str (KeyError k) = [CHR 0x27] @ k @ [CHR 0x27]"
| "exc_str (InvalidArgument m) = m"
| "exc_str (MermaidCliError m) = m"
| "exc_str (MermaidUnexpectedError m) = m"
| "exc_str (Other_exception cls m) = m"

text \<open>
  The file system maps a path to the content of the file there: the byte strings written
  to it, in order. \<open>buffers\<close> holds the file objects this process has open, each with
  the data written to it and not yet flushed. \<open>printed\<close> is what \<^verbatim>\<open>print\<close> wrote.
\<close>

type_synonym path = string

record mworld =
  files :: "path \<rightharpoonup> bytes list"
  buffers :: "path \<rightharpoonup> bytes list"
  printed :: "string list"

datatype io_op = Write_op path bytes | Close_op path

text \<open>
  What the function writes to the console: a line by \<^verbatim>\<open>print\<close>, the traceback by
  \<^verbatim>\<open>traceback.print_exc()\<close>.
\<close>

datatype console_op = Print_op string | Print_exc_op

text \<open>
  What \<^verbatim>\<open>subprocess.run(..., capture_output=True)\<close> observes of the child: it exited with a
  return code, its captured standard output and standard error, or it could not be
  run (a missing binary, say) and an exception says so.
\<close>

datatype child = Exited int bytes bytes | Not_run py_exception

text \<open>
  What the module calls but does not define:
  \<^item> \<open>temp_name\<close>: the name \<^verbatim>\<open>NamedTemporaryFile\<close> settles on, given the files there are
    and the suffix, or the exception it raises;
  \<^item> \<open>io_fault\<close>: the exception a write or a close raises, if any;
  \<^item> \<open>console_fault\<close>: the exception a \<^verbatim>\<open>print\<close> or \<^verbatim>\<open>traceback.print_exc()\<close> raises, if any
    (an encoding error of the stream, a closed stream);
  \<^item> \<open>run_child\<close>: the child process, from the files it finds and its argument list to
    what is observed of it and the files it leaves.
\<close>

record menv =
  temp_name :: "(path \<rightharpoonup> bytes list) \<Rightarrow> string \<Rightarrow> py_exception + path"
  io_fault :: "io_op \<Rightarrow> py_exception option"
  console_fault :: "console_op \<Rightarrow> py_exception option"
  run_child :: "(path \<rightharpoonup> bytes list) \<Rightarrow> string list \<Rightarrow> child \<times> (path \<rightharpoonup> bytes list)"

text \<open>
  How a block is left: by \<^verbatim>\<open>return\<close>, by \<^verbatim>\<open>subprocess.CalledProcessError\<close> (return code,
  command, captured output and captured standard error), or by another exception.
\<close>

datatype 'a outcome =
    Return 'a
  | Raise_CalledProcessError int "string list" bytes bytes
  | Raise py_exception

text \<open>
  \<^verbatim>\<open>NamedTemporaryFile(delete=False, suffix=...)\<close>: the file is created exclusively, so a
  name that exists is refused; the new file is empty and open.
\<close>

definition NamedTemporaryFile :: "menv \<Rightarrow> mworld \<Rightarrow> string \<Rightarrow> (py_exception + path) \<times> mworld" where
  "NamedTemporaryFile env w suffix =
     (case temp_name env (files w) suffix of
        Inl e \<Rightarrow> (Inl e, w)
      | Inr name \<Rightarrow>
          if name \<in> dom (files w) then (Inl (Other_exception ''FileExistsError'' name), w)
          else (Inr name, w\<lparr>files := (files w)(name \<mapsto> []),
                             buffers := (buffers w)(name \<mapsto> [])\<rparr>))"

text \<open>\<^verbatim>\<open>f.write(data)\<close>: buffered; a closed file raises \<^verbatim>\<open>ValueError\<close>.\<close>

definition write_tmp :: "menv \<Rightarrow> path \<Rightarrow> bytes \<Rightarrow> mworld \<Rightarrow> py_exception option \<times> mworld" where
  "write_tmp env name data w =
     (case buffers w name of
        None \<Rightarrow> (Some (ValueError ''write to closed file''), w)
      | Some buf \<Rightarrow>
          (case io_fault env (Write_op name data) of
             Some e \<Rightarrow> (Some e, w)
           | None \<Rightarrow> (None, w\<lparr>buffers := (buffers w)(name \<mapsto> buf @ [data])\<rparr>)))"

text \<open>
  \<^verbatim>\<open>f.close()\<close>: nothing on a closed file; otherwise the buffer is flushed and the file
  closed. When the flush fails the file is closed all the same and the exception leaves.
\<close>

definition close_tmp :: "menv \<Rightarrow> path \<Rightarrow> mworld \<Rightarrow> py_exception option \<times> mworld" where
  "close_tmp env name w =
     (case buffers w name of
        None \<Rightarrow> (None, w)
      | Some buf \<Rightarrow>
          (case io_fault env (Close_op name) of
             Some e \<Rightarrow> (Some e, w\<lparr>buffers := (buffers w)(name := None)\<rparr>)
           | None \<Rightarrow>
               (None, w\<lparr>files := (files w)(name \<mapsto>
                                    (case files w name of None \<Rightarrow> [] | Some old \<Rightarrow> old) @ buf),
                         buffers := (buffers w)(name := None)\<rparr>)))"

text \<open>
  Leaving a \<^verbatim>\<open>with\<close> block closes its file. An exception of that close replaces the way
  the block was left.
\<close>

definition exit_tmp :: "menv \<Rightarrow> path \<Rightarrow> 'a outcome \<times> mworld \<Rightarrow> 'a outcome \<times> mworld" where
  "exit_tmp env name r =
     (case close_tmp env name (snd r) of
        (Some e, w') \<Rightarrow> (Raise e, w')
      | (None, w') \<Rightarrow> (fst r, w'))"

text \<open>\<^verbatim>\<open>print(...)\<close>: the line is written, or the stream raises.\<close>

definition print :: "menv \<Rightarrow> string \<Rightarrow> mworld \<Rightarrow> py_exception option \<times> mworld" where
  "print env line w =
     (case console_fault env (Print_op line) of
        Some e \<Rightarrow> (Some e, w)
      | None \<Rightarrow> (None, w\<lparr>printed := printed w @ [line]\<rparr>))"

text \<open>
  \<^verbatim>\<open>traceback.print_exc()\<close>: the traceback goes to the standard error stream, whose content
  is not modelled; the stream may raise.
\<close>

definition print_exc :: "menv \<Rightarrow> mworld \<Rightarrow> py_exception option \<times> mworld" where
  "print_exc env w = (console_fault env Print_exc_op, w)"

text \<open>\<^verbatim>\<open>subprocess.run(args, check=True, capture_output=True)\<close>.\<close>

definition subprocess_run :: "menv \<Rightarrow> mworld \<Rightarrow> string list \<Rightarrow> (bytes \<times> bytes) outcome \<times> mworld" where
  "subprocess_run env w args =
     (case run_child env (files w) args of
        (Not_run e, fs) \<Rightarrow> (Raise e, w\<lparr>files := fs\<rparr>)
      | (Exited returncode out err, fs) \<Rightarrow>
          if returncode \<noteq> 0
          then (Raise_CalledProcessError returncode args out err, w\<lparr>files := fs\<rparr>)
          else (Return (out, err), w\<lparr>files := fs\<rparr>))"

record FileResponse =
  path_of :: path
  media_type :: string

text \<open>The body a file response sends: the content of the file at its path.\<close>

definition body_of :: "mworld \<Rightarrow> FileResponse \<Rightarrow> bytes list option" where
  "body_of w r = files w (path_of r)"

subsection \<open>\<^verbatim>\<open>create_mermaid_diagram\<close>\<close>

text \<open>Lines 27 to 29: the script is written, both files are closed.\<close>

definition write_and_close :: "menv \<Rightarrow> mworld \<Rightarrow> string \<Rightarrow> path \<Rightarrow> path \<Rightarrow> py_exception option \<times> mworld" where
  "write_and_close env w mermaid_script temp_in temp_out =
     (case write_tmp env temp_in (encode mermaid_script) w of
        (Some e, w1) \<Rightarrow> (Some e, w1)
      | (None, w1) \<Rightarrow>
          (case close_tmp env temp_in w1 of
             (Some e, w2) \<Rightarrow> (Some e, w2)
           | (None, w2) \<Rightarrow> close_tmp env temp_out w2))"

text \<open>Lines 32 to 42: the child process, the two prints, the response.\<close>

definition run_and_respond :: "menv \<Rightarrow> mworld \<Rightarrow> path \<Rightarrow> path \<Rightarrow> FileResponse outcome \<times> mworld" where
  "run_and_respond env w temp_in temp_out =
     (case subprocess_run env w [''mmdc'', ''-i'', temp_in, ''-o'', temp_out] of
        (Raise e, w1) \<Rightarrow> (Raise e, w1)
      | (Raise_CalledProcessError rc cmd out err, w1) \<Rightarrow>
          (Raise_CalledProcessError rc cmd out err, w1)
      | (Return (out, err), w1) \<Rightarrow>
          (case decode out of
             Inl e \<Rightarrow> (Raise e, w1)
           | Inr out_text \<Rightarrow>
               (case print env (''Mermaid CLI Output: '' @ out_text) w1 of
                  (Some e, w2) \<Rightarrow> (Raise e, w2)
                | (None, w2) \<Rightarrow>
                    (case decode err of
                       Inl e \<Rightarrow> (Raise e, w2)
                     | Inr err_text \<Rightarrow>
                         (case print env (''Mermaid CLI Errors: '' @ err_text) w2 of
                            (Some e, w3) \<Rightarrow> (Raise e, w3)
                          | (None, w3) \<Rightarrow>
                              (Return \<lparr>path_of = temp_out,
                                       media_type = ''image/svg+xml''\<rparr>, w3))))))"

text \<open>The body of the inner \<^verbatim>\<open>with\<close> block.\<close>

definition with_body :: "menv \<Rightarrow> mworld \<Rightarrow> string \<Rightarrow> path \<Rightarrow> path \<Rightarrow> FileResponse outcome \<times> mworld" where
  "with_body env w mermaid_script temp_in temp_out =
     (case write_and_close env w mermaid_script temp_in temp_out of
        (Some e, w1) \<Rightarrow> (Raise e, w1)
      | (None, w1) \<Rightarrow> run_and_respond env w1 temp_in temp_out)"

text \<open>
  The \<^verbatim>\<open>with\<close> statement: \<^verbatim>\<open>temp_in\<close> is created, then \<^verbatim>\<open>temp_out\<close>; they are left in
  the reverse order.
\<close>

definition with_temp_files :: "menv \<Rightarrow> mworld \<Rightarrow> string \<Rightarrow> FileResponse outcome \<times> mworld" where
  "with_temp_files env w mermaid_script =
     (case NamedTemporaryFile env w ''.mmd'' of
        (Inl e, w1) \<Rightarrow> (Raise e, w1)
      | (Inr temp_in, w1) \<Rightarrow>
          exit_tmp env temp_in
            (case NamedTemporaryFile env w1 ''.svg'' of
               (Inl e, w2) \<Rightarrow> (Raise e, w2)
             | (Inr temp_out, w2) \<Rightarrow>
                 exit_tmp env temp_out (with_body env w2 mermaid_script temp_in temp_out)))"

text \<open>
  The handler of \<^verbatim>\<open>subprocess.CalledProcessError\<close>, lines 45 to 48.
  \<^verbatim>\<open>err.stderr.decode()\<close> is evaluated for the print and again for the message. An
  exception that arises in the handler leaves the function as it is.
\<close>

definition handle_CalledProcessError ::
  "menv \<Rightarrow> mworld \<Rightarrow> bytes \<Rightarrow> py_exception \<times> mworld" where
  "handle_CalledProcessError env w err =
     (case print env ''Exception Details:'' w of
        (Some e, w1) \<Rightarrow> (e, w1)
      | (None, w1) \<Rightarrow>
          (case decode err of
             Inl e \<Rightarrow> (e, w1)
           | Inr details \<Rightarrow>
               (case print env details w1 of
                  (Some e, w2) \<Rightarrow> (e, w2)
                | (None, w2) \<Rightarrow>
                    (case print_exc env w2 of
                       (Some e, w3) \<Rightarrow> (e, w3)
                     | (None, w3) \<Rightarrow>
                         (case decode err of
                            Inl e \<Rightarrow> (e, w3)
                          | Inr stderr_text \<Rightarrow>
                              (MermaidCliError (''Mermaid CLI failed: '' @ stderr_text),
                               w3))))))"

text \<open>The handler of \<^verbatim>\<open>Exception\<close>, lines 50 to 52.\<close>

definition handle_Exception ::
  "menv \<Rightarrow> mworld \<Rightarrow> py_exception \<Rightarrow> py_exception \<times> mworld" where
  "handle_Exception env w err =
     (case print env ''Unexpected Exception:'' w of
        (Some e, w1) \<Rightarrow> (e, w1)
      | (None, w1) \<Rightarrow>
          (case print_exc env w1 of
             (Some e, w2) \<Rightarrow> (e, w2)
           | (None, w2) \<Rightarrow>
               (MermaidUnexpectedError (''Unexpected error occurred: '' @ exc_str err), w2)))"

definition create_mermaid_diagram ::
  "menv \<Rightarrow> mworld \<Rightarrow> string \<Rightarrow> (py_exception + FileResponse) \<times> mworld" where
  "create_mermaid_diagram env w mermaid_script =
     (case with_temp_files env w mermaid_script of
        (Return response, w1) \<Rightarrow> (Inr response, w1)
      | (Raise_CalledProcessError rc cmd out err, w1) \<Rightarrow>
          (case handle_CalledProcessError env w1 err of (e, w2) \<Rightarrow> (Inl e, w2))
      | (Raise err, w1) \<Rightarrow>
          (case handle_Exception env w1 err of (e, w2) \<Rightarrow> (Inl e, w2)))"

section \<open>Concrete inputs\<close>

text \<open>The markers of the \<^verbatim>\<open>anthropic\<close> package.\<close>

definition anthropic_HUMAN_PROMPT :: string where
  "anthropic_HUMAN_PROMPT = [CHR 0x0A, CHR 0x0A] @ ''Human:''"

definition anthropic_AI_PROMPT :: string where
  "anthropic_AI_PROMPT = [CHR 0x0A, CHR 0x0A] @ ''Assistant:''"

definition gpt_4 :: LLMDefinition where
  "gpt_4 = \<lparr>id_llm = ''gpt-4'', name_llm = ''GPT-4'', vendor_llm = ''openai'',
            max_tokens_llm = 8192\<rparr>"

definition claude_2 :: LLMDefinition where
  "claude_2 = \<lparr>id_llm = ''claude-2'', name_llm = ''Claude 2'', vendor_llm = ''anthropic'',
               max_tokens_llm = 100000\<rparr>"

definition claude_2_again :: LLMDefinition where
  "claude_2_again = \<lparr>id_llm = ''claude-2'', name_llm = ''Claude 2 (second entry)'',
                     vendor_llm = ''anthropic'', max_tokens_llm = 4096\<rparr>"

definition example_config :: LLMConfig where
  "example_config =
     \<lparr>llm_vendors = [(''openai'', [gpt_4]), (''anthropic'', [claude_2, claude_2_again])],
      llm_vendor_names = [''OpenAI'', ''Anthropic'']\<rparr>"

text \<open>
  Modelled from the spec: \<^verbatim>\<open>validate_max_tokens\<close> of \<^verbatim>\<open>..utils.llm_utils\<close> is not among the
  sources. The specification says that \<^verbatim>\<open>maxTokens\<close> must pass a validity check, which
  fails with \<^verbatim>\<open>InvalidArgument\<close> below the minimum and above the maximum that the
  validator accepts. The bounds are parameters.
\<close>

definition validate_max_tokens_spec :: "int \<Rightarrow> int \<Rightarrow> int \<Rightarrow> py_exception option" where
  "validate_max_tokens_spec lo hi max_tokens =
     (if max_tokens < lo \<or> hi < max_tokens then Some (InvalidArgument ''max_tokens'')
      else None)"

text \<open>An environment in which both clients return a completion.\<close>

definition example_env :: env where
  "example_env =
     \<lparr>ANTHROPIC_AI_VENDOR = ''anthropic'',
      HUMAN_PROMPT = anthropic_HUMAN_PROMPT,
      AI_PROMPT = anthropic_AI_PROMPT,
      validate_max_tokens = validate_max_tokens_spec 1 4096,
      environ = [''ANTHROPIC_API_KEY'' \<mapsto> ''sk-ant-test''],
      openai_create = (\<lambda>model max_tokens messages functions function_call.
                         Inr (OpenAIObject ''choices'')),
      anthropic_client = (\<lambda>api_key. None),
      anthropic_create = (\<lambda>api_key prompt stop_sequences model max_tokens.
                            Inr '' Hello! '')\<rparr>"

definition example_world :: "nat world" where
  "example_world = \<lparr>limiter = 0, calls = []\<rparr>"



text \<open>A function as callback: true, and it reads the text off the response.\<close>

definition first_choice :: py_callable where
  "first_choice =
     \<lparr>truth = Inr True,
      call = (\<lambda>response.
        case response of OpenAIObject payload \<Rightarrow> Inr (''text of '' @ payload)
        | Other_object payload \<Rightarrow> Inl (Other_exception ''AttributeError'' ''choices''))\<rparr>"

text \<open>
  A callable object as callback that is false (its \<^verbatim>\<open>__len__\<close> gives 0) and does the same
  when called.
\<close>

definition falsy_choice :: py_callable where
  "falsy_choice = first_choice\<lparr>truth := Inr False\<rparr>"

definition example_messages :: "py_dict list" where
  "example_messages = [[''role'' \<mapsto> ''user'', ''content'' \<mapsto> ''hi'']]"

subsection \<open>Notions the claims use\<close>

text \<open>The calls made between two worlds, and the entries into the vendor paths among them.\<close>

definition calls_made :: "'l world \<Rightarrow> 'l world \<Rightarrow> event list" where
  "calls_made w w' = drop (length (calls w)) (calls w')"

definition is_vendor_call :: "event \<Rightarrow> bool" where
  "is_vendor_call ev = (ev = Call_complete_anthropic_text \<or> ev = Call_complete_openai_text)"

definition vendor_calls :: "'l world \<Rightarrow> 'l world \<Rightarrow> event list" where
  "vendor_calls w w' = filter is_vendor_call (drop (length (calls w)) (calls w'))"



text \<open>
  The state in which the child process is started, with the names of the two temporary
  files: lines 23 to 29 without a failure. \<open>None\<close> when the child is not started.
\<close>

definition child_start :: "menv \<Rightarrow> mworld \<Rightarrow> string \<Rightarrow> (path \<times> path \<times> mworld) option" where
  "child_start env w mermaid_script =
     (case NamedTemporaryFile env w ''.mmd'' of
        (Inl e, w1) \<Rightarrow> None
      | (Inr temp_in, w1) \<Rightarrow>
          (case NamedTemporaryFile env w1 ''.svg'' of
             (Inl e, w2) \<Rightarrow> None
           | (Inr temp_out, w2) \<Rightarrow>
               (case write_and_close env w2 mermaid_script temp_in temp_out of
                  (Some e, w3) \<Rightarrow> None
                | (None, w3) \<Rightarrow> Some (temp_in, temp_out, w3))))"

text \<open>The temporary files that a call creates, in the order of their creation.\<close>

definition temp_files_created :: "menv \<Rightarrow> mworld \<Rightarrow> path list" where
  "temp_files_created env w =
     (case NamedTemporaryFile env w ''.mmd'' of
        (Inl e, w1) \<Rightarrow> []
      | (Inr temp_in, w1) \<Rightarrow>
          (case NamedTemporaryFile env w1 ''.svg'' of
             (Inl e, w2) \<Rightarrow> [temp_in]
           | (Inr temp_out, w2) \<Rightarrow> [temp_in, temp_out]))"

subsection \<open>Renderers\<close>

definition empty_world :: mworld where
  "empty_world = \<lparr>files = Map.empty, buffers = Map.empty, printed = []\<rparr>"

definition flowchart :: string where
  "flowchart = ''graph TD; A-->B;''"

text \<open>A renderer that writes an SVG document to its output path and exits with 0.\<close>

definition rendering_env :: menv where
  "rendering_env =
     \<lparr>temp_name = (\<lambda>fs suffix. Inr (''/tmp/tmpk3v9'' @ suffix)),
      io_fault = (\<lambda>op. None),
      console_fault = (\<lambda>op. None),
      run_child = (\<lambda>fs args.
        (Exited 0 (Encoded ''Generating single mermaid chart'') (Encoded []),
         fs(last args \<mapsto> [Encoded ''<svg></svg>''])))\<rparr>"

text \<open>A renderer that rejects the script: exit code 1, the diagnosis on standard error.\<close>

definition parse_error_env :: menv where
  "parse_error_env =
     rendering_env\<lparr>run_child :=
       (\<lambda>fs args. (Exited 1 (Encoded []) (Encoded ''parse error''), fs))\<rparr>"

text \<open>
  A renderer that writes the SVG document and exits with 0, and whose standard output is
  not valid UTF-8.
\<close>

definition binary_stdout_env :: menv where
  "binary_stdout_env =
     rendering_env\<lparr>run_child :=
       (\<lambda>fs args.
          (Exited 0 (Undecodable ''invalid start byte'') (Encoded []),
           fs(last args \<mapsto> [Encoded ''<svg></svg>''])))\<rparr>"

text \<open>A renderer that exits with 1 and whose standard error is not valid UTF-8.\<close>

definition binary_stderr_env :: menv where
  "binary_stderr_env =
     rendering_env\<lparr>run_child :=
       (\<lambda>fs args. (Exited 1 (Encoded []) (Undecodable ''invalid start byte''), fs))\<rparr>"

text \<open>A full disk: closing the input file, which flushes the script, fails.\<close>

definition disk_full_env :: menv where
  "disk_full_env =
     rendering_env\<lparr>io_fault :=
       (\<lambda>op. case op of
                Close_op name \<Rightarrow>
                  if name = ''/tmp/tmpk3v9.mmd''
                  then Some (Other_exception ''OSError'' ''No space left on device'')
                  else None
              | Write_op name data \<Rightarrow> None)\<rparr>"

section \<open>Lemmas\<close>

lemma find_app:
  "List.find P (xs @ ys) =
     (case List.find P xs of None \<Rightarrow> List.find P ys | Some x \<Rightarrow> Some x)"
  by (induction xs) auto

lemma get_llm_by_id_inner_find:
  "get_llm_by_id_inner llms i = List.find (\<lambda>llm. id_llm llm = i) llms"
  by (induction llms) auto

lemma get_llm_by_id_outer_find:
  "get_llm_by_id_outer vendors i =
     List.find (\<lambda>llm. id_llm llm = i) (concat (map snd vendors))"
proof (induction vendors)
  case Nil
  show ?case by simp
next
  case (Cons v vendors)
  obtain k llms where v: "v = (k, llms)" by (cases v)
  show ?case
  proof (cases "List.find (\<lambda>llm. id_llm llm = i) llms")
    case None
    then show ?thesis using Cons v by (simp add: get_llm_by_id_inner_find find_app)
  next
    case (Some llm)
    then show ?thesis using v by (simp add: get_llm_by_id_inner_find find_app)
  qed
qed

lemma loop_of_pairs:
  "format_anthropic_prompt_loop H A p (map message_of msgs) =
     Inr (p @ concat (map (\<lambda>(role, content). contribution H A role content) msgs))"
  by (induction msgs arbitrary: p) (auto simp: message_of_def getitem_def contribution_def)

lemma loop_total:
  "\<forall>m \<in> set ms. well_keyed m \<Longrightarrow> \<exists>s. format_anthropic_prompt_loop H A p ms = Inr s"
  by (induction ms arbitrary: p) (auto simp: well_keyed_def getitem_def split: option.splits)

lemma loop_raises:
  "\<exists>m \<in> set ms. \<not> well_keyed m \<Longrightarrow>
     \<exists>k. format_anthropic_prompt_loop H A p ms = Inl (KeyError k)"
proof (induction ms arbitrary: p)
  case Nil
  then show ?case by simp
next
  case (Cons m ms)
  show ?case
  proof (cases "well_keyed m")
    case True
    with Cons.prems have "\<exists>m \<in> set ms. \<not> well_keyed m" by simp
    from Cons.IH [OF this] True show ?thesis
      by (auto simp: well_keyed_def getitem_def split: option.splits)
  next
    case False
    then show ?thesis
      by (auto simp: well_keyed_def getitem_def split: option.splits if_splits)
  qed
qed

lemma anthropic_try_calls:
  "\<exists>rest. calls (snd (complete_anthropic_text_try env w mt model msgs)) = calls w @ rest
      \<and> filter is_vendor_call rest = []"
  by (auto simp: complete_anthropic_text_try_def emit_def Let_def is_vendor_call_def
      split: sum.splits option.splits)

lemma anthropic_calls:
  "\<exists>rest. calls (snd (complete_anthropic_text env w mt model msgs)) =
      calls w @ Call_complete_anthropic_text # rest \<and> filter is_vendor_call rest = []"
proof -
  obtain rest where r: "calls (snd (complete_anthropic_text_try env (emit Call_complete_anthropic_text w) mt model msgs))
     = calls (emit Call_complete_anthropic_text w) @ rest" "filter is_vendor_call rest = []"
    using anthropic_try_calls by blast
  then show ?thesis
    by (cases "complete_anthropic_text_try env (emit Call_complete_anthropic_text w) mt model msgs")
       (auto simp: complete_anthropic_text_def emit_def split: sum.splits py_exception.splits)
qed

lemma openai_try_calls:
  "\<exists>rest. calls (snd (complete_openai_text_try env w mt model msgs fs cb)) = calls w @ rest
      \<and> filter is_vendor_call rest = []"
  by (auto simp: complete_openai_text_try_def emit_def Let_def is_vendor_call_def
      split: sum.splits option.splits)

lemma openai_calls:
  "\<exists>rest. calls (snd (complete_openai_text env w mt model msgs fs cb)) =
      calls w @ Call_complete_openai_text # rest \<and> filter is_vendor_call rest = []"
proof -
  obtain rest where r: "calls (snd (complete_openai_text_try env (emit Call_complete_openai_text w) mt model msgs fs cb))
     = calls (emit Call_complete_openai_text w) @ rest" "filter is_vendor_call rest = []"
    using openai_try_calls by blast
  then show ?thesis
    by (cases "complete_openai_text_try env (emit Call_complete_openai_text w) mt model msgs fs cb")
       (auto simp: complete_openai_text_def emit_def split: sum.splits py_exception.splits)
qed

lemma snd_handler:
  "snd (case r of (Inl (LLMException exc), w') \<Rightarrow> (Inr (f exc), w') | r \<Rightarrow> r) = snd r"
  by (auto split: prod.splits sum.splits py_exception.splits)












lemma NamedTemporaryFile_Inr:
  "NamedTemporaryFile env w suffix = (Inr name, w1) \<Longrightarrow>
     name \<notin> dom (files w)
     \<and> w1 = w\<lparr>files := (files w)(name \<mapsto> []), buffers := (buffers w)(name \<mapsto> [])\<rparr>"
  by (auto simp: NamedTemporaryFile_def split: sum.splits if_splits)

lemma write_and_close_None:
  assumes "write_and_close env w script temp_in temp_out = (None, w3)"
    and "buffers w temp_in = Some []" and "buffers w temp_out = Some []"
    and "files w temp_in = Some []" and "files w temp_out = Some []"
    and "temp_in \<noteq> temp_out"
  shows "w3 = w\<lparr>files := (files w)(temp_in \<mapsto> [encode script], temp_out \<mapsto> []),
                 buffers := (buffers w)(temp_in := None, temp_out := None)\<rparr>"
  using assms
  by (auto simp: write_and_close_def write_tmp_def close_tmp_def
      split: option.splits prod.splits if_splits)

lemma child_start_Some:
  assumes "child_start env w script = Some (temp_in, temp_out, w3)"
  shows "temp_in \<notin> dom (files w) \<and> temp_out \<notin> dom (files w) \<and> temp_in \<noteq> temp_out
       \<and> w3 = w\<lparr>files := (files w)(temp_in \<mapsto> [encode script], temp_out \<mapsto> []),
                   buffers := (buffers w)(temp_in := None, temp_out := None)\<rparr>"
proof -
  from assms obtain w1 where n1: "NamedTemporaryFile env w ''.mmd'' = (Inr temp_in, w1)"
    by (auto simp: child_start_def split: prod.splits sum.splits option.splits)
  from assms n1 obtain w2 where n2: "NamedTemporaryFile env w1 ''.svg'' = (Inr temp_out, w2)"
    by (auto simp: child_start_def split: prod.splits sum.splits option.splits)
  from assms n1 n2 have wc: "write_and_close env w2 script temp_in temp_out = (None, w3)"
    by (auto simp: child_start_def split: prod.splits sum.splits option.splits)
  from NamedTemporaryFile_Inr [OF n1] have f1: "temp_in \<notin> dom (files w)"
    and w1: "w1 = w\<lparr>files := (files w)(temp_in \<mapsto> []), buffers := (buffers w)(temp_in \<mapsto> [])\<rparr>"
    by simp_all
  from NamedTemporaryFile_Inr [OF n2] have f2: "temp_out \<notin> dom (files w1)"
    and w2: "w2 = w1\<lparr>files := (files w1)(temp_out \<mapsto> []), buffers := (buffers w1)(temp_out \<mapsto> [])\<rparr>"
    by simp_all
  from f2 w1 have ne: "temp_in \<noteq> temp_out" and f2': "temp_out \<notin> dom (files w)"
    by (auto split: if_splits)
  have "w3 = w2\<lparr>files := (files w2)(temp_in \<mapsto> [encode script], temp_out \<mapsto> []),
                 buffers := (buffers w2)(temp_in := None, temp_out := None)\<rparr>"
    by (rule write_and_close_None [OF wc]) (use ne w1 w2 in auto)
  with w1 w2 ne have "w3 = w\<lparr>files := (files w)(temp_in \<mapsto> [encode script], temp_out \<mapsto> []),
                   buffers := (buffers w)(temp_in := None, temp_out := None)\<rparr>"
    by (simp add: fun_upd_twist)
  with f1 f2' ne show ?thesis by blast
qed

lemma print_world: "files (snd (print env line w)) = files w"
  "buffers (snd (print env line w)) = buffers w"
  by (auto simp: print_def split: option.splits)

lemma print_exc_world: "snd (print_exc env w) = w"
  by (simp add: print_exc_def)

lemma buffers_run_and_respond:
  "buffers (snd (run_and_respond env w temp_in temp_out)) = buffers w"
  by (auto simp: run_and_respond_def subprocess_run_def print_def Let_def
      split: prod.splits child.splits sum.splits outcome.splits option.splits)

lemma exit_tmp_closed: "buffers (snd r) name = None \<Longrightarrow> exit_tmp env name r = r"
  by (simp add: exit_tmp_def close_tmp_def)

lemma with_temp_files_child_start:
  assumes "child_start env w script = Some (temp_in, temp_out, w3)"
  shows "with_temp_files env w script = run_and_respond env w3 temp_in temp_out"
proof -
  from assms obtain w1 where n1: "NamedTemporaryFile env w ''.mmd'' = (Inr temp_in, w1)"
    by (auto simp: child_start_def split: prod.splits sum.splits option.splits)
  from assms n1 obtain w2 where n2: "NamedTemporaryFile env w1 ''.svg'' = (Inr temp_out, w2)"
    by (auto simp: child_start_def split: prod.splits sum.splits option.splits)
  from assms n1 n2 have wc: "write_and_close env w2 script temp_in temp_out = (None, w3)"
    by (auto simp: child_start_def split: prod.splits sum.splits option.splits)
  from child_start_Some [OF assms] have b: "buffers w3 temp_in = None" "buffers w3 temp_out = None"
    by auto
  let ?r = "run_and_respond env w3 temp_in temp_out"
  have "exit_tmp env temp_out ?r = ?r"
    by (rule exit_tmp_closed) (simp add: buffers_run_and_respond b)
  moreover have "exit_tmp env temp_in ?r = ?r"
    by (rule exit_tmp_closed) (simp add: buffers_run_and_respond b)
  ultimately show ?thesis using n1 n2 wc
    by (simp add: with_temp_files_def with_body_def)
qed

lemma close_tmp_dom: "dom (files w) \<subseteq> dom (files (snd (close_tmp env name w)))"
  by (auto simp: close_tmp_def split: option.splits)

lemma write_tmp_files: "files (snd (write_tmp env name data w)) = files w"
  by (auto simp: write_tmp_def split: option.splits)

lemma exit_tmp_dom: "dom (files (snd r)) \<subseteq> dom (files (snd (exit_tmp env name r)))"
proof -
  have "snd (exit_tmp env name r) = snd (close_tmp env name (snd r))"
    by (auto simp: exit_tmp_def split: prod.splits option.splits)
  then show ?thesis using close_tmp_dom [of "snd r" env name] by simp
qed

lemma write_and_close_dom:
  "dom (files w) \<subseteq> dom (files (snd (write_and_close env w script temp_in temp_out)))"
proof -
  obtain r1 w1 where a: "write_tmp env temp_in (encode script) w = (r1, w1)" by (cases "write_tmp env temp_in (encode script) w")
  obtain r2 w2 where b: "close_tmp env temp_in w1 = (r2, w2)" by (cases "close_tmp env temp_in w1")
  have f1: "files w1 = files w" using write_tmp_files [of env temp_in "encode script" w] a by simp
  have f2: "dom (files w1) \<subseteq> dom (files w2)" using close_tmp_dom [of w1 env temp_in] b by simp
  have f3: "dom (files w2) \<subseteq> dom (files (snd (close_tmp env temp_out w2)))" by (rule close_tmp_dom)
  show ?thesis using a b f1 f2 f3
    by (cases r1; cases r2) (auto simp: write_and_close_def)
qed

lemma files_handle_CalledProcessError:
  "files (snd (handle_CalledProcessError env w err)) = files w"
  by (auto simp: handle_CalledProcessError_def print_def print_exc_def
      split: prod.splits sum.splits option.splits)

lemma files_handle_Exception: "files (snd (handle_Exception env w err)) = files w"
  by (auto simp: handle_Exception_def print_def print_exc_def
      split: prod.splits option.splits)

lemma files_create_mermaid_diagram:
  "files (snd (create_mermaid_diagram env w script)) = files (snd (with_temp_files env w script))"
proof (cases "with_temp_files env w script")
  case (Pair r w1)
  show ?thesis
  proof (cases r)
    case (Return response)
    with Pair show ?thesis by (simp add: create_mermaid_diagram_def)
  next
    case (Raise_CalledProcessError rc cmd out err)
    with Pair files_handle_CalledProcessError [of env w1 err] show ?thesis
      by (auto simp: create_mermaid_diagram_def split: prod.splits)
  next
    case (Raise e)
    with Pair files_handle_Exception [of env w1 e] show ?thesis
      by (auto simp: create_mermaid_diagram_def split: prod.splits)
  qed
qed

lemma with_temp_files_not_started:
  assumes "child_start env w script = None"
  shows "dom (files w) \<union> set (temp_files_created env w)
           \<subseteq> dom (files (snd (with_temp_files env w script)))"
proof (cases "NamedTemporaryFile env w ''.mmd''")
  case (Pair r1 w1)
  show ?thesis
  proof (cases r1)
    case (Inl e)
    with Pair show ?thesis
      by (auto simp: with_temp_files_def temp_files_created_def NamedTemporaryFile_def
          split: sum.splits if_splits)
  next
    case (Inr temp_in)
    with Pair have n1: "NamedTemporaryFile env w ''.mmd'' = (Inr temp_in, w1)" by simp
    from NamedTemporaryFile_Inr [OF n1] have d1: "dom (files w1) = insert temp_in (dom (files w))"
      by auto
    show ?thesis
    proof (cases "NamedTemporaryFile env w1 ''.svg''")
      case (Pair r2 w2)
      show ?thesis
      proof (cases r2)
        case (Inl e)
        with Pair have n2: "NamedTemporaryFile env w1 ''.svg'' = (Inl e, w2)" by simp
        then have "w2 = w1" by (auto simp: NamedTemporaryFile_def split: sum.splits if_splits)
        let ?b = "(Raise e, w1) :: FileResponse outcome \<times> mworld"
        have eq: "with_temp_files env w script = exit_tmp env temp_in ?b"
          using n1 n2 \<open>w2 = w1\<close> by (simp add: with_temp_files_def)
        have created: "temp_files_created env w = [temp_in]"
          using n1 n2 by (simp add: temp_files_created_def)
        have "dom (files w1) \<subseteq> dom (files (snd (with_temp_files env w script)))"
          unfolding eq using exit_tmp_dom [of ?b env temp_in] by simp
        moreover have "dom (files w) \<union> set (temp_files_created env w) \<subseteq> dom (files w1)"
          unfolding created d1 by auto
        ultimately show ?thesis by (rule order_trans [rotated])
      next
        case (Inr temp_out)
        with Pair have n2: "NamedTemporaryFile env w1 ''.svg'' = (Inr temp_out, w2)" by simp
        from NamedTemporaryFile_Inr [OF n2] have d2: "dom (files w2) = insert temp_out (dom (files w1))"
          by auto
        from assms n1 n2 obtain e w3 where
          wc: "write_and_close env w2 script temp_in temp_out = (Some e, w3)"
          by (cases "write_and_close env w2 script temp_in temp_out")
             (auto simp: child_start_def split: option.splits)
        have d3: "dom (files w2) \<subseteq> dom (files w3)"
          using write_and_close_dom [of w2 env script temp_in temp_out] wc by simp
        let ?b = "(Raise e, w3) :: FileResponse outcome \<times> mworld"
        have d4: "dom (files w3) \<subseteq> dom (files (snd (exit_tmp env temp_out ?b)))"
          using exit_tmp_dom [of ?b env temp_out] by simp
        have d5: "dom (files (snd (exit_tmp env temp_out ?b)))
                    \<subseteq> dom (files (snd (exit_tmp env temp_in (exit_tmp env temp_out ?b))))"
          by (rule exit_tmp_dom)
        have eq: "with_temp_files env w script = exit_tmp env temp_in (exit_tmp env temp_out ?b)"
          using n1 n2 wc by (simp add: with_temp_files_def with_body_def)
        have created: "temp_files_created env w = [temp_in, temp_out]"
          using n1 n2 by (simp add: temp_files_created_def)
        have "dom (files w2) \<subseteq> dom (files (snd (with_temp_files env w script)))"
          unfolding eq using d3 d4 d5 by (rule order_trans [OF order_trans])
        moreover have "dom (files w) \<union> set (temp_files_created env w) \<subseteq> dom (files w2)"
          unfolding created d2 d1 by auto
        ultimately show ?thesis by (rule order_trans [rotated])
      qed
    qed
  qed
qed

lemma files_run_and_respond:
  "files (snd (run_and_respond env w temp_in temp_out)) =
     snd (run_child env (files w) [''mmdc'', ''-i'', temp_in, ''-o'', temp_out])"
  by (auto simp: run_and_respond_def subprocess_run_def print_def Let_def
      split: prod.splits child.splits sum.splits outcome.splits option.splits)

lemma create_mermaid_diagram_tool_failure:
  assumes "child_start env w script = Some (temp_in, temp_out, w3)"
    and "run_child env (files w3) [''mmdc'', ''-i'', temp_in, ''-o'', temp_out] =
           (Exited returncode out err, fs)"
    and "returncode \<noteq> 0"
    and "decode err = Inr stderr_text"
    and "\<forall>op. console_fault env op = None"
  shows "fst (create_mermaid_diagram env w script) =
           Inl (MermaidCliError (''Mermaid CLI failed: '' @ stderr_text))"
  using assms(2-5)
  by (simp add: create_mermaid_diagram_def with_temp_files_child_start [OF assms(1)]
      run_and_respond_def subprocess_run_def handle_CalledProcessError_def print_def
      print_exc_def Let_def)

lemma create_mermaid_diagram_success:
  assumes "child_start env w script = Some (temp_in, temp_out, w3)"
    and "run_child env (files w3) [''mmdc'', ''-i'', temp_in, ''-o'', temp_out] =
           (Exited 0 out err, fs)"
    and "decode out = Inr out_text"
    and "decode err = Inr err_text"
    and "\<forall>op. console_fault env op = None"
    and "fs temp_out = Some content"
  shows "fst (create_mermaid_diagram env w script) =
           Inr \<lparr>path_of = temp_out, media_type = ''image/svg+xml''\<rparr>
       \<and> body_of (snd (create_mermaid_diagram env w script))
            \<lparr>path_of = temp_out, media_type = ''image/svg+xml''\<rparr> = Some content"
  using assms(2-6)
  by (simp add: create_mermaid_diagram_def with_temp_files_child_start [OF assms(1)]
      run_and_respond_def subprocess_run_def Let_def body_of_def print_def)

section \<open>The claims\<close>

text \<open>
  C4. For every list of role/content messages, \<^verbatim>\<open>format_anthropic_prompt\<close> returns the
  concatenation, from left to right, of what each message contributes: the human marker,
  one space and the content for the role \<^verbatim>\<open>user\<close>, the assistant marker, one space and
  the content for the role \<^verbatim>\<open>assistant\<close>, nothing for any other role. On
  \<^verbatim>\<open>[{user, "hi"}, {assistant, "hello"}]\<close> that is the human marker, \<^verbatim>\<open>" hi"\<close>, the assistant
  marker and \<^verbatim>\<open>" hello"\<close>, with nothing in between.
\<close>

theorem format_anthropic_prompt_concat:
  "format_anthropic_prompt HUMAN AI (map message_of msgs) =
     Inr (concat (map (\<lambda>(role, content). contribution HUMAN AI role content) msgs))
   \<and> format_anthropic_prompt HUMAN AI
        [message_of (''user'', ''hi''), message_of (''assistant'', ''hello'')] =
      Inr (HUMAN @ '' hi'' @ AI @ '' hello'')"
proof
  show "format_anthropic_prompt HUMAN AI (map message_of msgs) =
     Inr (concat (map (\<lambda>(role, content). contribution HUMAN AI role content) msgs))"
    by (simp add: format_anthropic_prompt_def loop_of_pairs)
  show "format_anthropic_prompt HUMAN AI
        [message_of (''user'', ''hi''), message_of (''assistant'', ''hello'')] =
      Inr (HUMAN @ '' hi'' @ AI @ '' hello'')"
    by (simp add: format_anthropic_prompt_def message_of_def getitem_def)
qed

theorem format_anthropic_prompt_concat_witness:
  "format_anthropic_prompt anthropic_HUMAN_PROMPT anthropic_AI_PROMPT
     (map message_of [(''user'', ''hi''), (''system'', ''be brief''), (''assistant'', ''hello'')]) =
   Inr ([CHR 0x0A, CHR 0x0A] @ ''Human: hi'' @ [CHR 0x0A, CHR 0x0A] @ ''Assistant: hello'')"
  using format_anthropic_prompt_concat
    [of anthropic_HUMAN_PROMPT anthropic_AI_PROMPT
        "[(''user'', ''hi''), (''system'', ''be brief''), (''assistant'', ''hello'')]"]
  by (simp add: contribution_def anthropic_HUMAN_PROMPT_def anthropic_AI_PROMPT_def)

text \<open>
  C10. \<^verbatim>\<open>format_anthropic_prompt\<close> returns a string exactly when every message has the key
  \<^verbatim>\<open>role\<close> and, if that role is \<^verbatim>\<open>user\<close> or \<^verbatim>\<open>assistant\<close>, the key \<^verbatim>\<open>content\<close>; on a list with
  a message that has not, it raises a \<^verbatim>\<open>KeyError\<close>.
\<close>

theorem format_anthropic_prompt_KeyError:
  "((\<exists>prompt. format_anthropic_prompt HUMAN AI messages = Inr prompt)
      \<longleftrightarrow> (\<forall>m \<in> set messages. well_keyed m))
   \<and> ((\<exists>m \<in> set messages. \<not> well_keyed m)
      \<longrightarrow> (\<exists>k. format_anthropic_prompt HUMAN AI messages = Inl (KeyError k)))"
proof -
  have raises: "\<exists>k. format_anthropic_prompt HUMAN AI messages = Inl (KeyError k)"
    if "\<exists>m \<in> set messages. \<not> well_keyed m"
    using loop_raises [OF that] by (simp add: format_anthropic_prompt_def)
  have total: "\<exists>s. format_anthropic_prompt HUMAN AI messages = Inr s"
    if "\<forall>m \<in> set messages. well_keyed m"
    using loop_total [OF that] by (simp add: format_anthropic_prompt_def)
  from raises total show ?thesis by (metis Inl_Inr_False)
qed

theorem format_anthropic_prompt_KeyError_witness:
  "(\<exists>m \<in> set [[''role'' \<mapsto> ''user'', ''content'' \<mapsto> ''hi''], [''role'' \<mapsto> ''assistant'']].
      \<not> well_keyed m)
   \<and> (\<exists>k. format_anthropic_prompt anthropic_HUMAN_PROMPT anthropic_AI_PROMPT
            [[''role'' \<mapsto> ''user'', ''content'' \<mapsto> ''hi''], [''role'' \<mapsto> ''assistant'']] =
          Inl (KeyError k))
   \<and> well_keyed [''role'' \<mapsto> ''system'']
   \<and> well_keyed [''role'' \<mapsto> ''user'', ''content'' \<mapsto> ''hi'']
   \<and> (\<exists>prompt. format_anthropic_prompt anthropic_HUMAN_PROMPT anthropic_AI_PROMPT
            [[''role'' \<mapsto> ''system''], [''role'' \<mapsto> ''user'', ''content'' \<mapsto> ''hi'']] =
          Inr prompt)"
proof -
  have bad: "\<exists>m \<in> set [[''role'' \<mapsto> ''user'', ''content'' \<mapsto> ''hi''], [''role'' \<mapsto> ''assistant'']].
      \<not> well_keyed m"
    by (simp add: well_keyed_def)
  have good: "\<forall>m \<in> set [[''role'' \<mapsto> ''system''], [''role'' \<mapsto> ''user'', ''content'' \<mapsto> ''hi'']].
      well_keyed m"
    by (simp add: well_keyed_def)
  from bad good
    format_anthropic_prompt_KeyError [of anthropic_HUMAN_PROMPT anthropic_AI_PROMPT
      "[[''role'' \<mapsto> ''user'', ''content'' \<mapsto> ''hi''], [''role'' \<mapsto> ''assistant'']]"]
    format_anthropic_prompt_KeyError [of anthropic_HUMAN_PROMPT anthropic_AI_PROMPT
      "[[''role'' \<mapsto> ''system''], [''role'' \<mapsto> ''user'', ''content'' \<mapsto> ''hi'']]"]
  show ?thesis by simp
qed

text \<open>
  C7. \<^verbatim>\<open>get_llm_by_id\<close> raises nothing. It returns the first definition with the given id,
  the vendors scanned in the order of the mapping and each vendor's list in order; it
  returns \<^verbatim>\<open>None\<close> exactly when no definition of any vendor has that id.
\<close>

theorem get_llm_by_id_first_match:
  "get_llm_by_id llm_config llm_id =
     List.find (\<lambda>llm. id_llm llm = llm_id) (all_llms llm_config)
   \<and> (get_llm_by_id llm_config llm_id = None
        \<longleftrightarrow> (\<forall>llm \<in> set (all_llms llm_config). id_llm llm \<noteq> llm_id))"
  by (auto simp add: get_llm_by_id_def all_llms_def get_llm_by_id_outer_find find_None_iff)

theorem get_llm_by_id_first_match_witness:
  "List.find (\<lambda>llm. id_llm llm = ''gpt-5'') (all_llms example_config) = None
   \<and> get_llm_by_id example_config ''gpt-5'' = None
   \<and> get_llm_by_id example_config ''claude-2'' = Some claude_2"
proof -
  have absent: "\<forall>llm \<in> set (all_llms example_config). id_llm llm \<noteq> ''gpt-5''"
    by (simp add: all_llms_def example_config_def gpt_4_def claude_2_def claude_2_again_def)
  have "get_llm_by_id example_config ''gpt-5'' = None"
    using absent get_llm_by_id_first_match [of example_config "''gpt-5''"] by blast
  moreover have "get_llm_by_id example_config ''claude-2'' = Some claude_2"
    using get_llm_by_id_first_match [of example_config "''claude-2''"]
    by (simp add: all_llms_def example_config_def gpt_4_def claude_2_def claude_2_again_def)
  moreover have "List.find (\<lambda>llm. id_llm llm = ''gpt-5'') (all_llms example_config) = None"
    using absent by (simp add: find_None_iff)
  ultimately show ?thesis by blast
qed

text \<open>
  C2. When the validator rejects \<^verbatim>\<open>max_tokens\<close>, \<^verbatim>\<open>complete_text\<close> raises what the validator
  raised and has done nothing else: the limiter's state is the one before the call and no
  call is made, to the limiter or to either vendor path.
\<close>

theorem complete_text_validation_first:
  "validate_max_tokens env max_tokens = Some e \<Longrightarrow>
     complete_text env w max_tokens model vendor messages functions callback = (Inl e, w)
     \<and> limiter (snd (complete_text env w max_tokens model vendor messages functions callback)) =
         limiter w
     \<and> calls (snd (complete_text env w max_tokens model vendor messages functions callback)) =
         calls w"
  by (simp add: complete_text_def)

theorem complete_text_validation_first_witness:
  "validate_max_tokens example_env 0 = Some (InvalidArgument ''max_tokens'')
   \<and> validate_max_tokens example_env 4097 = Some (InvalidArgument ''max_tokens'')
   \<and> complete_text example_env example_world 0 ''gpt-4'' ''openai'' example_messages None None =
       (Inl (InvalidArgument ''max_tokens''), example_world)
   \<and> complete_text example_env example_world 4097 ''claude-2'' ''anthropic'' example_messages
        None None =
       (Inl (InvalidArgument ''max_tokens''), example_world)"
proof -
  have lo: "validate_max_tokens example_env 0 = Some (InvalidArgument ''max_tokens'')"
    by (simp add: example_env_def validate_max_tokens_spec_def)
  have hi: "validate_max_tokens example_env 4097 = Some (InvalidArgument ''max_tokens'')"
    by (simp add: example_env_def validate_max_tokens_spec_def)
  from lo hi
    complete_text_validation_first [OF lo, of example_world "''gpt-4''" "''openai''"
      example_messages None None]
    complete_text_validation_first [OF hi, of example_world "''claude-2''" "''anthropic''"
      example_messages None None]
  show ?thesis by simp
qed

text \<open>
  C8, as the claim states it, fails: line 110 tests the truth value of \<^verbatim>\<open>callback\<close>, not
  whether one was supplied. A supplied callable that is false is not called, and the
  fixed string is returned.
\<close>

theorem complete_openai_text_success_counterexample:
  "openai_create example_env ''gpt-4'' 100 example_messages None ''auto'' =
     Inr (OpenAIObject ''choices'')
   \<and> call falsy_choice (OpenAIObject ''choices'') = Inr ''text of choices''
   \<and> complete_openai_text example_env example_world 100 ''gpt-4'' example_messages None
        (Some falsy_choice) =
      (Inr ''Response doesn't have choices or choices have no text.'',
       \<lparr>limiter = 0,
        calls = [Call_complete_openai_text,
                 ChatCompletion_create ''gpt-4'' 100 example_messages None ''auto'']\<rparr>)"
  by (simp add: complete_openai_text_def complete_openai_text_try_def no_choices_def emit_def
      Let_def example_env_def example_world_def falsy_choice_def first_choice_def)

text \<open>
  C8, amended. In \<^verbatim>\<open>complete_openai_text\<close>, when the client returns an \<^verbatim>\<open>OpenAIObject\<close>: if a
  callback is supplied and is true (as every function is), the response is passed to it
  and the string it returns is the result, unchanged; if no callback is supplied, or the
  supplied one is false, the callback is not called and the result is the fixed string
  \<^verbatim>\<open>Response doesn't have choices or choices have no text.\<close>
\<close>

theorem complete_openai_text_success:
  "openai_create env model max_tokens messages functions ''auto'' = Inr (OpenAIObject payload) \<Longrightarrow>
     fst (complete_openai_text env w max_tokens model messages functions None) =
       Inr ''Response doesn't have choices or choices have no text.''
     \<and> (truth cb = Inr False \<longrightarrow>
          fst (complete_openai_text env w max_tokens model messages functions (Some cb)) =
            Inr ''Response doesn't have choices or choices have no text.''
          \<and> calls_made w (snd (complete_openai_text env w max_tokens model messages functions
                                  (Some cb))) =
              [Call_complete_openai_text,
               ChatCompletion_create model max_tokens messages functions ''auto''])
     \<and> (truth cb = Inr True \<and> call cb (OpenAIObject payload) = Inr result \<longrightarrow>
          fst (complete_openai_text env w max_tokens model messages functions (Some cb)) =
            Inr result
          \<and> calls_made w (snd (complete_openai_text env w max_tokens model messages functions
                                  (Some cb))) =
              [Call_complete_openai_text,
               ChatCompletion_create model max_tokens messages functions ''auto'',
               Callback (OpenAIObject payload)])"
  by (simp add: complete_openai_text_def complete_openai_text_try_def no_choices_def emit_def
      calls_made_def Let_def)

theorem complete_openai_text_success_witness:
  "openai_create example_env ''gpt-4'' 100 example_messages None ''auto'' =
     Inr (OpenAIObject ''choices'')
   \<and> truth first_choice = Inr True
   \<and> call first_choice (OpenAIObject ''choices'') = Inr ''text of choices''
   \<and> truth falsy_choice = Inr False
   \<and> fst (complete_openai_text example_env example_world 100 ''gpt-4'' example_messages None None) =
       Inr ''Response doesn't have choices or choices have no text.''
   \<and> fst (complete_openai_text example_env example_world 100 ''gpt-4'' example_messages None
            (Some first_choice)) = Inr ''text of choices''
   \<and> fst (complete_openai_text example_env example_world 100 ''gpt-4'' example_messages None
            (Some falsy_choice)) = Inr ''Response doesn't have choices or choices have no text.''"
proof -
  have r: "openai_create example_env ''gpt-4'' 100 example_messages None ''auto'' =
     Inr (OpenAIObject ''choices'')"
    by (simp add: example_env_def)
  have t: "truth first_choice = Inr True" by (simp add: first_choice_def)
  have c: "call first_choice (OpenAIObject ''choices'') = Inr ''text of choices''"
    by (simp add: first_choice_def)
  have f: "truth falsy_choice = Inr False" by (simp add: falsy_choice_def)
  from r t c f
    complete_openai_text_success [OF r, of example_world first_choice "''text of choices''"]
    complete_openai_text_success [OF r, of example_world falsy_choice]
  show ?thesis by simp
qed

text \<open>
  C3. For every call to \<^verbatim>\<open>complete_text\<close> that passes validation, the vendor paths entered
  during the call are exactly one: the Anthropic path (\<^verbatim>\<open>complete_anthropic_text\<close>) and never
  the OpenAI path when the vendor tag equals the Anthropic constant; the OpenAI path
  (\<^verbatim>\<open>complete_openai_text\<close>) and never the Anthropic path for every other tag.
\<close>

theorem complete_text_dispatch:
  assumes "validate_max_tokens env max_tokens = None"
  shows "vendor_calls w (snd (complete_text env w max_tokens model vendor messages functions callback)) =
     (if vendor = ANTHROPIC_AI_VENDOR env then [Call_complete_anthropic_text]
      else [Call_complete_openai_text])"
proof -
  let ?w1 = "emit (Ratelimit ''complete_text'') w"
  have c1: "calls ?w1 = calls w @ [Ratelimit ''complete_text'']" by (simp add: emit_def)
  show ?thesis
  proof (cases "vendor = ANTHROPIC_AI_VENDOR env")
    case True
    obtain rest where "calls (snd (complete_anthropic_text env ?w1 max_tokens model messages)) =
      calls ?w1 @ Call_complete_anthropic_text # rest" "filter is_vendor_call rest = []"
      using anthropic_calls by blast
    then show ?thesis using True assms c1
      by (simp add: complete_text_def complete_text_try_def Let_def snd_handler vendor_calls_def
          is_vendor_call_def)
  next
    case False
    obtain rest where "calls (snd (complete_openai_text env ?w1 max_tokens model messages functions callback)) =
      calls ?w1 @ Call_complete_openai_text # rest" "filter is_vendor_call rest = []"
      using openai_calls by blast
    then show ?thesis using False assms c1
      by (simp add: complete_text_def complete_text_try_def Let_def snd_handler vendor_calls_def
          is_vendor_call_def)
  qed
qed

theorem complete_text_dispatch_witness:
  "validate_max_tokens example_env 100 = None
   \<and> vendor_calls example_world
        (snd (complete_text example_env example_world 100 ''claude-2'' ''anthropic''
                example_messages None None)) = [Call_complete_anthropic_text]
   \<and> vendor_calls example_world
        (snd (complete_text example_env example_world 100 ''gpt-4'' ''openai''
                example_messages None None)) = [Call_complete_openai_text]"
proof -
  have v: "validate_max_tokens example_env 100 = None"
    by (simp add: example_env_def validate_max_tokens_spec_def)
  have a: "ANTHROPIC_AI_VENDOR example_env = ''anthropic''"
    by (simp add: example_env_def)
  from v a
    complete_text_dispatch [OF v, of example_world "''claude-2''" "''anthropic''" example_messages
      None None]
    complete_text_dispatch [OF v, of example_world "''gpt-4''" "''openai''" example_messages
      None None]
  show ?thesis by simp
qed




text \<open>
  C5. A renderer that exits with a non-zero code is to be reported as \<^verbatim>\<open>MermaidCliError\<close>
  carrying its captured standard error. The function does so when the standard error is
  valid UTF-8 and the console accepts the log lines (\<open>create_mermaid_diagram_tool_failure\<close>).
  It does not for a renderer that exits with 1 and whose standard error is not valid
  UTF-8: the handler of \<^verbatim>\<open>CalledProcessError\<close> decodes the standard error for its print
  before it raises, the \<^verbatim>\<open>UnicodeDecodeError\<close> (a \<^verbatim>\<open>ValueError\<close>) of that decoding arises inside
  the handler, and it leaves the function in place of \<^verbatim>\<open>MermaidCliError\<close>.
\<close>

theorem create_mermaid_diagram_undecodable_stderr:
  "(\<exists>w3. child_start binary_stderr_env empty_world flowchart =
            Some (''/tmp/tmpk3v9.mmd'', ''/tmp/tmpk3v9.svg'', w3)
         \<and> run_child binary_stderr_env (files w3)
              [''mmdc'', ''-i'', ''/tmp/tmpk3v9.mmd'', ''-o'', ''/tmp/tmpk3v9.svg''] =
            (Exited 1 (Encoded []) (Undecodable ''invalid start byte''), files w3))
   \<and> fst (create_mermaid_diagram binary_stderr_env empty_world flowchart) =
       Inl (ValueError ''invalid start byte'')"
  by (simp add: create_mermaid_diagram_def with_temp_files_def with_body_def
      run_and_respond_def subprocess_run_def exit_tmp_def handle_CalledProcessError_def
      child_start_def NamedTemporaryFile_def write_and_close_def write_tmp_def
      close_tmp_def binary_stderr_env_def rendering_env_def empty_world_def Let_def print_def)

text \<open>
  C6. A renderer that exits with 0 and has written the output file is to be answered
  with a file response of content type \<^verbatim>\<open>image/svg+xml\<close> whose body is that file. The
  function does so when the captured standard output and standard error are valid UTF-8
  and the console accepts the log lines (\<open>create_mermaid_diagram_success\<close>). It does not for
  a renderer that exits with 0, has written the file, and whose standard output is not
  valid UTF-8: the decoding for the print of line 38 raises inside the \<^verbatim>\<open>try\<close>, and the
  function raises \<^verbatim>\<open>MermaidUnexpectedError\<close>.
\<close>

theorem create_mermaid_diagram_undecodable_stdout:
  "(\<exists>w3. child_start binary_stdout_env empty_world flowchart =
            Some (''/tmp/tmpk3v9.mmd'', ''/tmp/tmpk3v9.svg'', w3)
         \<and> run_child binary_stdout_env (files w3)
              [''mmdc'', ''-i'', ''/tmp/tmpk3v9.mmd'', ''-o'', ''/tmp/tmpk3v9.svg''] =
            (Exited 0 (Undecodable ''invalid start byte'') (Encoded []),
             (files w3)(''/tmp/tmpk3v9.svg'' \<mapsto> [Encoded ''<svg></svg>''])))
   \<and> fst (create_mermaid_diagram binary_stdout_env empty_world flowchart) =
       Inl (MermaidUnexpectedError ''Unexpected error occurred: invalid start byte'')
   \<and> files (snd (create_mermaid_diagram binary_stdout_env empty_world flowchart))
        ''/tmp/tmpk3v9.svg'' = Some [Encoded ''<svg></svg>'']"
  by (simp add: create_mermaid_diagram_def with_temp_files_def with_body_def
      run_and_respond_def subprocess_run_def exit_tmp_def handle_Exception_def print_exc_def
      child_start_def NamedTemporaryFile_def write_and_close_def write_tmp_def
      close_tmp_def binary_stdout_env_def rendering_env_def empty_world_def Let_def print_def)

text \<open>
  C9, as the claim states it, fails: on a path of unexpected failure the script need not
  have been written. When closing the input file fails (the disk is full), the child is
  not started and the input file is left empty.
\<close>

theorem create_mermaid_diagram_temp_files_counterexample:
  "child_start disk_full_env empty_world flowchart = None
   \<and> fst (create_mermaid_diagram disk_full_env empty_world flowchart) =
       Inl (MermaidUnexpectedError ''Unexpected error occurred: No space left on device'')
   \<and> files (snd (create_mermaid_diagram disk_full_env empty_world flowchart))
        ''/tmp/tmpk3v9.mmd'' = Some []
   \<and> [encode flowchart] \<noteq> []"
  by (simp add: create_mermaid_diagram_def with_temp_files_def with_body_def
      handle_Exception_def print_exc_def
      exit_tmp_def child_start_def NamedTemporaryFile_def write_and_close_def write_tmp_def
      close_tmp_def disk_full_env_def rendering_env_def empty_world_def Let_def print_def)

text \<open>
  C9, amended. Whenever \<^verbatim>\<open>create_mermaid_diagram\<close> starts the child process (the paths of
  success and of tool failure, and of an unexpected failure after the start), the
  script has been written in full to a freshly created temporary input file, whose name
  differs from that of the freshly created output file, and both files are closed at that
  moment. On no path does the function delete a file: until the child is started, every
  file that existed and every temporary file created is still there; after the child,
  the files are those that the child left.
\<close>

theorem create_mermaid_diagram_temp_files:
  "(child_start env w script = Some (temp_in, temp_out, w3) \<longrightarrow>
      temp_in \<notin> dom (files w) \<and> temp_out \<notin> dom (files w) \<and> temp_in \<noteq> temp_out
      \<and> temp_files_created env w = [temp_in, temp_out]
      \<and> files w3 temp_in = Some [encode script]
      \<and> buffers w3 temp_in = None \<and> buffers w3 temp_out = None
      \<and> dom (files w) \<union> {temp_in, temp_out} \<subseteq> dom (files w3)
      \<and> with_temp_files env w script = run_and_respond env w3 temp_in temp_out
      \<and> files (snd (create_mermaid_diagram env w script)) =
          snd (run_child env (files w3) [''mmdc'', ''-i'', temp_in, ''-o'', temp_out]))
   \<and> (child_start env w script = None \<longrightarrow>
        dom (files w) \<union> set (temp_files_created env w)
          \<subseteq> dom (files (snd (create_mermaid_diagram env w script))))"
proof (intro conjI impI)
  assume "child_start env w script = None"
  from with_temp_files_not_started [OF this]
  show "dom (files w) \<union> set (temp_files_created env w)
          \<subseteq> dom (files (snd (create_mermaid_diagram env w script)))"
    by (simp only: files_create_mermaid_diagram)
next
  assume cs: "child_start env w script = Some (temp_in, temp_out, w3)"
  note st = child_start_Some [OF cs]
  from st show "temp_in \<notin> dom (files w)" by blast
  from st show "temp_out \<notin> dom (files w)" by blast
  from st show ne: "temp_in \<noteq> temp_out" by blast
  from st have w3: "w3 = w\<lparr>files := (files w)(temp_in \<mapsto> [encode script], temp_out \<mapsto> []),
                   buffers := (buffers w)(temp_in := None, temp_out := None)\<rparr>" by blast
  from cs show "temp_files_created env w = [temp_in, temp_out]"
    by (auto simp: child_start_def temp_files_created_def
        split: prod.splits sum.splits option.splits)
  from w3 ne show "files w3 temp_in = Some [encode script]" by simp
  from w3 show "buffers w3 temp_in = None" by simp
  from w3 show "buffers w3 temp_out = None" by simp
  from w3 show "dom (files w) \<union> {temp_in, temp_out} \<subseteq> dom (files w3)" by auto
  show link: "with_temp_files env w script = run_and_respond env w3 temp_in temp_out"
    by (rule with_temp_files_child_start [OF cs])
  show "files (snd (create_mermaid_diagram env w script)) =
          snd (run_child env (files w3) [''mmdc'', ''-i'', temp_in, ''-o'', temp_out])"
    by (simp only: files_create_mermaid_diagram link files_run_and_respond)
qed

theorem create_mermaid_diagram_temp_files_witness:
  "(\<exists>w3. child_start rendering_env empty_world flowchart =
           Some (''/tmp/tmpk3v9.mmd'', ''/tmp/tmpk3v9.svg'', w3)
        \<and> files w3 ''/tmp/tmpk3v9.mmd'' = Some [Encoded ''graph TD; A-->B;'']
        \<and> buffers w3 ''/tmp/tmpk3v9.mmd'' = None
        \<and> buffers w3 ''/tmp/tmpk3v9.svg'' = None)
   \<and> child_start disk_full_env empty_world flowchart = None
   \<and> temp_files_created disk_full_env empty_world = [''/tmp/tmpk3v9.mmd'', ''/tmp/tmpk3v9.svg'']
   \<and> ''/tmp/tmpk3v9.mmd'' \<in>
        dom (files (snd (create_mermaid_diagram disk_full_env empty_world flowchart)))
   \<and> ''/tmp/tmpk3v9.svg'' \<in>
        dom (files (snd (create_mermaid_diagram disk_full_env empty_world flowchart)))"
proof -
  have "\<exists>w3. child_start rendering_env empty_world flowchart =
          Some (''/tmp/tmpk3v9.mmd'', ''/tmp/tmpk3v9.svg'', w3)"
    by (simp add: child_start_def NamedTemporaryFile_def write_and_close_def write_tmp_def
        close_tmp_def rendering_env_def empty_world_def)
  then obtain w3 where cs: "child_start rendering_env empty_world flowchart =
      Some (''/tmp/tmpk3v9.mmd'', ''/tmp/tmpk3v9.svg'', w3)"
    by blast
  have none: "child_start disk_full_env empty_world flowchart = None"
    by (simp add: child_start_def NamedTemporaryFile_def write_and_close_def write_tmp_def
        close_tmp_def disk_full_env_def rendering_env_def empty_world_def)
  have created: "temp_files_created disk_full_env empty_world =
      [''/tmp/tmpk3v9.mmd'', ''/tmp/tmpk3v9.svg'']"
    by (simp add: temp_files_created_def NamedTemporaryFile_def disk_full_env_def
        rendering_env_def empty_world_def)
  from cs create_mermaid_diagram_temp_files
      [of rendering_env empty_world flowchart "''/tmp/tmpk3v9.mmd''" "''/tmp/tmpk3v9.svg''" w3]
  have a: "files w3 ''/tmp/tmpk3v9.mmd'' = Some [Encoded ''graph TD; A-->B;'']
        \<and> buffers w3 ''/tmp/tmpk3v9.mmd'' = None
        \<and> buffers w3 ''/tmp/tmpk3v9.svg'' = None"
    by (simp add: encode_def flowchart_def)
  from none created create_mermaid_diagram_temp_files
      [of disk_full_env empty_world flowchart]
  have b: "''/tmp/tmpk3v9.mmd'' \<in>
        dom (files (snd (create_mermaid_diagram disk_full_env empty_world flowchart)))
     \<and> ''/tmp/tmpk3v9.svg'' \<in>
        dom (files (snd (create_mermaid_diagram disk_full_env empty_world flowchart)))"
    by simp
  from cs a none created b show ?thesis by blast
qed

end
